theory Spec2Isabelle
  imports Complex_Main
begin

section \<open>Values, dictionaries and errors\<close>

text \<open>
  The request handlers of \<^verbatim>\<open>app/main.py\<close> receive JSON bodies as Python dictionaries
  and read the provider's responses by subscripting. A Python value decoded from JSON is a
  \<open>json\<close>; \<open>JNull\<close> is \<^verbatim>\<open>None\<close>. Numbers are read as their exact value: the handlers
  only test them for zero and copy them. A dictionary is an association list read with
  \<open>map_of\<close>. A calendar date is its proleptic Gregorian ordinal
  (\<^verbatim>\<open>date.toordinal()\<close>), so \<^verbatim>\<open>d + timedelta(days=k)\<close> is \<open>d + k\<close>; the range limit
  \<^verbatim>\<open>date.max\<close> of the year 9999 is outside the model.
\<close>

type_synonym date = int

datatype json =
    JNull
  | JBool bool
  | JNum real
  | JStr string
  | JArr "json list"
  | JObj "(string \<times> json) list"

type_synonym dict = "(string \<times> json) list"

text \<open>Python truthiness, as \<^verbatim>\<open>if not x\<close> tests it.\<close>

fun truthy :: "json \<Rightarrow> bool" where
  "truthy JNull = False"
| "truthy (JBool b) = b"
| "truthy (JNum x) = (x \<noteq> 0)"
| "truthy (JStr s) = (s \<noteq> [])"
| "truthy (JArr xs) = (xs \<noteq> [])"
| "truthy (JObj kvs) = (kvs \<noteq> [])"

text \<open>\<^verbatim>\<open>d.get(k)\<close>: the value, or \<^verbatim>\<open>None\<close> for a missing key.\<close>

definition dict_get :: "dict \<Rightarrow> string \<Rightarrow> json" where
  "dict_get d k = (case map_of d k of None \<Rightarrow> JNull | Some v \<Rightarrow> v)"

text \<open>
  Every \<^verbatim>\<open>raise\<close> is a value. \<open>HTTPException\<close> carries the status code and the detail
  string of the source; \<open>CollaboratorError\<close> is whatever a provider call raised, which the
  handlers never catch.
\<close>

datatype error =
    HTTPException nat string
  | ValueError
  | TypeError
  | KeyError string
  | IndexError
  | CollaboratorError string

text \<open>\<^verbatim>\<open>x[k]\<close> with a string key: a dictionary lookup, a \<^verbatim>\<open>TypeError\<close> on anything else.\<close>

fun getitem :: "json \<Rightarrow> string \<Rightarrow> error + json" where
  "getitem (JObj kvs) k = (case map_of kvs k of None \<Rightarrow> Inl (KeyError k) | Some v \<Rightarrow> Inr v)"
| "getitem _ k = Inl TypeError"

text \<open>
  \<^verbatim>\<open>x[0]\<close>: the first element of a list or string; a dictionary decoded from JSON has
  string keys only, so the key \<^verbatim>\<open>0\<close> is missing.
\<close>

fun getitem0 :: "json \<Rightarrow> error + json" where
  "getitem0 (JArr []) = Inl IndexError"
| "getitem0 (JArr (x # xs)) = Inr x"
| "getitem0 (JStr []) = Inl IndexError"
| "getitem0 (JStr (c # cs)) = Inr (JStr [c])"
| "getitem0 (JObj kvs) = Inl (KeyError ''0'')"
| "getitem0 _ = Inl TypeError"

section \<open>The stored records and the persistence collaborator\<close>

text \<open>
  The ORM classes \<^verbatim>\<open>WeatherLocation\<close> and \<^verbatim>\<open>WeatherInfo\<close>, with the attributes that
  \<^verbatim>\<open>main.py\<close> reads and writes. The fields carry a prefix, since the handlers use the
  bare names (\<^verbatim>\<open>city\<close>, \<^verbatim>\<open>lat\<close>, \<^verbatim>\<open>info_id\<close>) for their variables.
\<close>

record WeatherLocation =
  loc_id :: int
  loc_city :: json
  loc_country :: json
  loc_lat :: json
  loc_lon :: json

record WeatherInfo =
  wi_id :: int
  wi_location_id :: int
  wi_date :: date
  wi_temperature :: json
  wi_weather_description :: json
  wi_raw_data :: json

record database =
  locations :: "WeatherLocation list"
  infos :: "WeatherInfo list"

text \<open>A system-generated identifier: one more than the largest in use.\<close>

definition fresh_id :: "int list \<Rightarrow> int" where
  "fresh_id ids = fold max ids 0 + 1"

text \<open>
  Modelled from the spec: \<^verbatim>\<open>crud.get_location_by_city\<close> (the module \<^verbatim>\<open>app/crud.py\<close> is
  missing). The persistence collaborator retrieves a Location keyed by city and country;
  the first stored match is returned, \<open>None\<close> when there is none.
\<close>

definition crud_get_location_by_city ::
  "database \<Rightarrow> json \<Rightarrow> json \<Rightarrow> WeatherLocation option" where
  "crud_get_location_by_city d city country =
     find (\<lambda>l. loc_city l = city \<and> loc_country l = country) (locations d)"

text \<open>
  Modelled from the spec: \<^verbatim>\<open>crud.create_location\<close> (missing). It persists a new Location
  with a system-generated identifier and the given fields, and returns it.
\<close>

definition crud_create_location ::
  "database \<Rightarrow> json \<Rightarrow> json \<Rightarrow> json \<Rightarrow> json \<Rightarrow> WeatherLocation \<times> database" where
  "crud_create_location d city country lat lon =
     (let l = \<lparr>loc_id = fresh_id (map loc_id (locations d)), loc_city = city,
                loc_country = country, loc_lat = lat, loc_lon = lon\<rparr>
      in (l, d\<lparr>locations := locations d @ [l]\<rparr>))"

text \<open>
  Modelled from the spec: \<^verbatim>\<open>crud.get_info_by_loc_date\<close> (missing). It looks up the
  WeatherInfo of a (location, date) pair: the first stored match, \<open>None\<close> when there is
  none.
\<close>

definition crud_get_info_by_loc_date ::
  "database \<Rightarrow> int \<Rightarrow> date \<Rightarrow> WeatherInfo option" where
  "crud_get_info_by_loc_date d location_id dt =
     find (\<lambda>i. wi_location_id i = location_id \<and> wi_date i = dt) (infos d)"

text \<open>
  Modelled from the spec: \<^verbatim>\<open>crud.create_info\<close> (missing). It persists a new WeatherInfo
  with a system-generated identifier; \<^verbatim>\<open>raw_data\<close> is an optional keyword whose default
  is \<^verbatim>\<open>None\<close>.
\<close>

definition crud_create_info ::
  "database \<Rightarrow> int \<Rightarrow> date \<Rightarrow> json \<Rightarrow> json \<Rightarrow> json \<Rightarrow> WeatherInfo \<times> database" where
  "crud_create_info d location_id info_date temperature weather_description raw_data =
     (let i = \<lparr>wi_id = fresh_id (map wi_id (infos d)), wi_location_id = location_id,
                wi_date = info_date, wi_temperature = temperature,
                wi_weather_description = weather_description, wi_raw_data = raw_data\<rparr>
      in (i, d\<lparr>infos := infos d @ [i]\<rparr>))"

text \<open>
  Modelled from the spec: \<^verbatim>\<open>crud.update_info\<close> (missing). The partial update accepts a
  mapping of field names to new values restricted to temperature, weather description and
  raw data; a field the mapping does not name is untouched; an identifier that does not
  resolve gives \<open>None\<close>.
\<close>

definition apply_updates :: "dict \<Rightarrow> WeatherInfo \<Rightarrow> WeatherInfo" where
  "apply_updates updates i =
     i\<lparr>wi_temperature :=
         (case map_of updates ''temperature'' of None \<Rightarrow> wi_temperature i | Some v \<Rightarrow> v),
       wi_weather_description :=
         (case map_of updates ''weather_description'' of
            None \<Rightarrow> wi_weather_description i | Some v \<Rightarrow> v),
       wi_raw_data :=
         (case map_of updates ''raw_data'' of None \<Rightarrow> wi_raw_data i | Some v \<Rightarrow> v)\<rparr>"

fun update_first :: "int \<Rightarrow> dict \<Rightarrow> WeatherInfo list \<Rightarrow> WeatherInfo list" where
  "update_first info_id updates [] = []"
| "update_first info_id updates (i # is) =
     (if wi_id i = info_id then apply_updates updates i # is
      else i # update_first info_id updates is)"

definition crud_update_info ::
  "database \<Rightarrow> int \<Rightarrow> dict \<Rightarrow> WeatherInfo option \<times> database" where
  "crud_update_info d info_id updates =
     (case find (\<lambda>i. wi_id i = info_id) (infos d) of
        None \<Rightarrow> (None, d)
      | Some i \<Rightarrow> (Some (apply_updates updates i),
                   d\<lparr>infos := update_first info_id updates (infos d)\<rparr>))"

section \<open>The world of a request: the store and the trace of collaborator calls\<close>

text \<open>
  Every call a handler makes to a collaborator is appended to \<open>calls\<close>, reads included,
  so that "no collaborator call" is the statement that the trace did not grow.
\<close>

datatype call =
    GetWeatherByCity json json
  | GetForecastByDateAndCity date json json
  | CrudGetLocationByCity json json
  | CrudCreateLocation json json json json
  | CrudGetInfoByLocDate int date
  | CrudCreateInfo int date json json
  | CrudGetInfosByLocDateRange int date date
  | CrudUpdateInfo int dict

fun is_provider_call :: "call \<Rightarrow> bool" where
  "is_provider_call (GetWeatherByCity city country) = True"
| "is_provider_call (GetForecastByDateAndCity dt city country) = True"
| "is_provider_call _ = False"

record world =
  db :: database
  calls :: "call list"

text \<open>
  What a request finds around it: the value of \<^verbatim>\<open>date.today()\<close>, read once per request;
  the parser \<^verbatim>\<open>date.fromisoformat\<close> of the Python library on strings (\<open>None\<close> is its
  \<^verbatim>\<open>ValueError\<close>); and the two operations of the missing module \<^verbatim>\<open>app/weather_api.py\<close>,
  which answer from the calls made so far with a response or with the message of the
  exception they raise.
\<close>

record env =
  today :: date
  fromisoformat :: "string \<Rightarrow> date option"
  get_weather_by_city :: "call list \<Rightarrow> json \<Rightarrow> json \<Rightarrow> string + json"
  get_forecast_by_date_and_city :: "call list \<Rightarrow> date \<Rightarrow> json \<Rightarrow> json \<Rightarrow> string + json"

definition call_get_weather_by_city ::
  "env \<Rightarrow> world \<Rightarrow> json \<Rightarrow> json \<Rightarrow> (error + json) \<times> world" where
  "call_get_weather_by_city e w city country =
     ((case get_weather_by_city e (calls w) city country of
         Inl msg \<Rightarrow> Inl (CollaboratorError msg)
       | Inr data \<Rightarrow> Inr data),
      w\<lparr>calls := calls w @ [GetWeatherByCity city country]\<rparr>)"

definition call_get_forecast_by_date_and_city ::
  "env \<Rightarrow> world \<Rightarrow> date \<Rightarrow> json \<Rightarrow> json \<Rightarrow> (error + json) \<times> world" where
  "call_get_forecast_by_date_and_city e w dt city country =
     ((case get_forecast_by_date_and_city e (calls w) dt city country of
         Inl msg \<Rightarrow> Inl (CollaboratorError msg)
       | Inr data \<Rightarrow> Inr data),
      w\<lparr>calls := calls w @ [GetForecastByDateAndCity dt city country]\<rparr>)"

definition call_crud_get_location_by_city ::
  "world \<Rightarrow> json \<Rightarrow> json \<Rightarrow> WeatherLocation option \<times> world" where
  "call_crud_get_location_by_city w city country =
     (crud_get_location_by_city (db w) city country,
      w\<lparr>calls := calls w @ [CrudGetLocationByCity city country]\<rparr>)"

definition call_crud_create_location ::
  "world \<Rightarrow> json \<Rightarrow> json \<Rightarrow> json \<Rightarrow> json \<Rightarrow> WeatherLocation \<times> world" where
  "call_crud_create_location w city country lat lon =
     (case crud_create_location (db w) city country lat lon of
        (l, d) \<Rightarrow> (l, w\<lparr>db := d, calls := calls w @ [CrudCreateLocation city country lat lon]\<rparr>))"

definition call_crud_get_info_by_loc_date ::
  "world \<Rightarrow> int \<Rightarrow> date \<Rightarrow> WeatherInfo option \<times> world" where
  "call_crud_get_info_by_loc_date w location_id dt =
     (crud_get_info_by_loc_date (db w) location_id dt,
      w\<lparr>calls := calls w @ [CrudGetInfoByLocDate location_id dt]\<rparr>)"

definition call_crud_create_info ::
  "world \<Rightarrow> int \<Rightarrow> date \<Rightarrow> json \<Rightarrow> json \<Rightarrow> WeatherInfo \<times> world" where
  "call_crud_create_info w location_id info_date temperature weather_description =
     (case crud_create_info (db w) location_id info_date temperature weather_description JNull of
        (i, d) \<Rightarrow> (i, w\<lparr>db := d,
                         calls := calls w @
                           [CrudCreateInfo location_id info_date temperature weather_description]\<rparr>))"

definition call_crud_update_info ::
  "world \<Rightarrow> int \<Rightarrow> dict \<Rightarrow> WeatherInfo option \<times> world" where
  "call_crud_update_info w info_id updates =
     (case crud_update_info (db w) info_id updates of
        (r, d) \<Rightarrow> (r, w\<lparr>db := d, calls := calls w @ [CrudUpdateInfo info_id updates]\<rparr>))"

section \<open>The handlers of main.py\<close>

text \<open>\<^verbatim>\<open>data["coord"]["lat"]\<close> and \<^verbatim>\<open>data["coord"]["lon"]\<close>, in this order.\<close>

definition coord_of :: "json \<Rightarrow> error + json \<times> json" where
  "coord_of data =
     (case getitem data ''coord'' of
        Inl x \<Rightarrow> Inl x
      | Inr c \<Rightarrow>
          (case getitem c ''lat'' of
             Inl x \<Rightarrow> Inl x
           | Inr lat \<Rightarrow>
               (case getitem c ''lon'' of
                  Inl x \<Rightarrow> Inl x
                | Inr lon \<Rightarrow> Inr (lat, lon))))"

text \<open>
  \<^verbatim>\<open>create_location\<close> (lines 21 to 60): the city check, the coordinates from the provider
  when \<^verbatim>\<open>not lat or not lon\<close>, the lookup of the (city, country) pair, the creation.
\<close>

definition create_location ::
  "env \<Rightarrow> dict \<Rightarrow> world \<Rightarrow> (error + WeatherLocation) \<times> world" where
  "create_location e location w =
     (let city = dict_get location ''city'';
          country = dict_get location ''country'';
          lat = dict_get location ''lat'';
          lon = dict_get location ''lon''
      in if \<not> truthy city then (Inl (HTTPException 400 ''city is required''), w)
         else
           (case (if \<not> truthy lat \<or> \<not> truthy lon
                  then (case call_get_weather_by_city e w city country of
                          (Inl x, w1) \<Rightarrow> (Inl x, w1)
                        | (Inr data, w1) \<Rightarrow> (coord_of data, w1))
                  else (Inr (lat, lon), w)) of
              (Inl x, w1) \<Rightarrow> (Inl x, w1)
            | (Inr (lat', lon'), w1) \<Rightarrow>
                (case call_crud_get_location_by_city w1 city country of
                   (Some db_loc, w2) \<Rightarrow>
                     (Inl (HTTPException 400 ''Location already exists''), w2)
                 | (None, w2) \<Rightarrow>
                     (case call_crud_create_location w2 city country lat' lon' of
                        (db_loc, w3) \<Rightarrow> (Inr db_loc, w3)))))"

text \<open>
  \<^verbatim>\<open>date.fromisoformat(v)\<close> on a value of the request: a \<^verbatim>\<open>TypeError\<close> when \<open>v\<close> is not
  a string, a \<^verbatim>\<open>ValueError\<close> when the string is not a date.
\<close>

definition date_fromisoformat :: "env \<Rightarrow> json \<Rightarrow> error + date" where
  "date_fromisoformat e v =
     (case v of
        JStr s \<Rightarrow> (case fromisoformat e s of None \<Rightarrow> Inl ValueError | Some d \<Rightarrow> Inr d)
      | _ \<Rightarrow> Inl TypeError)"

text \<open>
  The validation of \<^verbatim>\<open>create_info\<close> (lines 129 to 155), in the order of the source. The
  \<^verbatim>\<open>try\<close> block catches \<^verbatim>\<open>ValueError\<close> only. The result is the city, the country and
  the two parsed dates.
\<close>

definition create_info_validate ::
  "env \<Rightarrow> dict \<Rightarrow> error + (json \<times> json \<times> date \<times> date)" where
  "create_info_validate e input =
     (let city = dict_get input ''city'';
          country = dict_get input ''country'';
          start_date = dict_get input ''start_date'';
          end_date = dict_get input ''end_date''
      in if \<not> truthy city \<or> \<not> truthy start_date \<or> \<not> truthy end_date
         then Inl (HTTPException 400 ''city, start_date, and end_date are required'')
         else
           (case date_fromisoformat e start_date of
              Inl ValueError \<Rightarrow> Inl (HTTPException 400 ''Invalid date format. Use YYYY-MM-DD'')
            | Inl x \<Rightarrow> Inl x
            | Inr start \<Rightarrow>
                (case date_fromisoformat e end_date of
                   Inl ValueError \<Rightarrow>
                     Inl (HTTPException 400 ''Invalid date format. Use YYYY-MM-DD'')
                 | Inl x \<Rightarrow> Inl x
                 | Inr end' \<Rightarrow>
                     if start > end'
                     then Inl (HTTPException 400 ''start_date must be before end_date'')
                     else if start < today e \<or> end' < today e
                     then Inl (HTTPException 400
                            ''Historical data is not supported in free OpenWeather API'')
                     else if start > today e + 5 \<or> end' > today e + 5
                     then Inl (HTTPException 400
                            ''Max 5 days forecast supported in free OpenWeather API'')
                     else Inr (city, country, start, end'))))"

text \<open>\<^verbatim>\<open>info_data["main"]["temp"]\<close>, then \<^verbatim>\<open>info_data["weather"][0]["description"]\<close>.\<close>

definition temp_desc_of :: "json \<Rightarrow> error + json \<times> json" where
  "temp_desc_of info_data =
     (case getitem info_data ''main'' of
        Inl x \<Rightarrow> Inl x
      | Inr m \<Rightarrow>
          (case getitem m ''temp'' of
             Inl x \<Rightarrow> Inl x
           | Inr temp \<Rightarrow>
               (case getitem info_data ''weather'' of
                  Inl x \<Rightarrow> Inl x
                | Inr ws \<Rightarrow>
                    (case getitem0 ws of
                       Inl x \<Rightarrow> Inl x
                     | Inr w0 \<Rightarrow>
                         (case getitem w0 ''description'' of
                            Inl x \<Rightarrow> Inl x
                          | Inr desc \<Rightarrow> Inr (temp, desc))))))"

text \<open>
  The body of the loop of \<^verbatim>\<open>create_info\<close> (lines 168 to 187) for one date: the record of
  the date, found or fetched and stored. \<^verbatim>\<open>jsonable_encoder\<close> serialises the record for
  the response; the model returns the record.
\<close>

definition create_info_date ::
  "env \<Rightarrow> json \<Rightarrow> json \<Rightarrow> int \<Rightarrow> date \<Rightarrow> world \<Rightarrow> (error + WeatherInfo) \<times> world" where
  "create_info_date e city country location_id current w =
     (case call_crud_get_info_by_loc_date w location_id current of
        (Some info, w1) \<Rightarrow> (Inr info, w1)
      | (None, w1) \<Rightarrow>
          (case (if current = today e
                 then call_get_weather_by_city e w1 city country
                 else call_get_forecast_by_date_and_city e w1 current city country) of
             (Inl x, w2) \<Rightarrow> (Inl x, w2)
           | (Inr info_data, w2) \<Rightarrow>
               (case temp_desc_of info_data of
                  Inl x \<Rightarrow> (Inl x, w2)
                | Inr (temp, desc) \<Rightarrow>
                    (case call_crud_create_info w2 location_id current temp desc of
                       (info, w3) \<Rightarrow> (Inr info, w3)))))"

text \<open>The loop \<^verbatim>\<open>while current <= end\<close> (lines 165 to 190), with the list \<^verbatim>\<open>infos\<close>.\<close>

function create_info_loop ::
  "env \<Rightarrow> json \<Rightarrow> json \<Rightarrow> int \<Rightarrow> date \<Rightarrow> date \<Rightarrow> WeatherInfo list \<Rightarrow> world
     \<Rightarrow> (error + WeatherInfo list) \<times> world" where
  "create_info_loop e city country location_id current end' infos_acc w =
     (if current \<le> end'
      then (case create_info_date e city country location_id current w of
              (Inl x, w1) \<Rightarrow> (Inl x, w1)
            | (Inr info, w1) \<Rightarrow>
                create_info_loop e city country location_id (current + 1) end'
                  (infos_acc @ [info]) w1)
      else (Inr infos_acc, w))"
  by pat_completeness auto
termination
  by (relation "measure (\<lambda>(e, city, country, location_id, current, end', infos_acc, w).
        nat (end' + 1 - current))") auto

text \<open>
  The location of the request (lines 157 to 162): the stored one, or a new one with the
  coordinates of the provider's current weather.
\<close>

definition create_info_location ::
  "env \<Rightarrow> json \<Rightarrow> json \<Rightarrow> world \<Rightarrow> (error + WeatherLocation) \<times> world" where
  "create_info_location e city country w =
     (case call_crud_get_location_by_city w city country of
        (Some loc, w1) \<Rightarrow> (Inr loc, w1)
      | (None, w1) \<Rightarrow>
          (case call_get_weather_by_city e w1 city country of
             (Inl x, w2) \<Rightarrow> (Inl x, w2)
           | (Inr data, w2) \<Rightarrow>
               (case coord_of data of
                  Inl x \<Rightarrow> (Inl x, w2)
                | Inr (lat, lon) \<Rightarrow>
                    (case call_crud_create_location w2 city country lat lon of
                       (loc, w3) \<Rightarrow> (Inr loc, w3)))))"

text \<open>\<^verbatim>\<open>create_info\<close> (lines 111 to 190).\<close>

definition create_info ::
  "env \<Rightarrow> dict \<Rightarrow> world \<Rightarrow> (error + WeatherInfo list) \<times> world" where
  "create_info e input w =
     (case create_info_validate e input of
        Inl x \<Rightarrow> (Inl x, w)
      | Inr (city, country, start, end') \<Rightarrow>
          (case create_info_location e city country w of
             (Inl x, w1) \<Rightarrow> (Inl x, w1)
           | (Inr loc, w1) \<Rightarrow>
               create_info_loop e city country (loc_id loc) start end' [] w1))"

text \<open>
  \<^verbatim>\<open>get_info_by_loc_date\<close> (lines 288 to 307). The query parameter is a string; a
  string that is not a date is a bad request.
\<close>

definition get_info_by_loc_date ::
  "env \<Rightarrow> int \<Rightarrow> string \<Rightarrow> world \<Rightarrow> (error + WeatherInfo) \<times> world" where
  "get_info_by_loc_date e location_id look_up_date w =
     (case fromisoformat e look_up_date of
        None \<Rightarrow> (Inl (HTTPException 400 ''Invalid date format. Use YYYY-MM-DD''), w)
      | Some info_date \<Rightarrow>
          (case call_crud_get_info_by_loc_date w location_id info_date of
             (None, w1) \<Rightarrow> (Inl (HTTPException 404 ''Weather info not found''), w1)
           | (Some info, w1) \<Rightarrow> (Inr info, w1)))"

text \<open>
  \<^verbatim>\<open>get_infos_by_loc_date_range\<close> (lines 312 to 333). The range query of the missing
  module \<^verbatim>\<open>app/crud.py\<close> is the parameter \<open>range_query\<close>.
\<close>

definition get_infos_by_loc_date_range ::
  "(database \<Rightarrow> int \<Rightarrow> date \<Rightarrow> date \<Rightarrow> WeatherInfo list) \<Rightarrow> env \<Rightarrow> int \<Rightarrow> string \<Rightarrow> string
     \<Rightarrow> world \<Rightarrow> (error + WeatherInfo list) \<times> world" where
  "get_infos_by_loc_date_range range_query e location_id start_date end_date w =
     (case fromisoformat e start_date of
        None \<Rightarrow> (Inl (HTTPException 400 ''Invalid date format. Use YYYY-MM-DD''), w)
      | Some start \<Rightarrow>
          (case fromisoformat e end_date of
             None \<Rightarrow> (Inl (HTTPException 400 ''Invalid date format. Use YYYY-MM-DD''), w)
           | Some end' \<Rightarrow>
               (let found = range_query (db w) location_id start end';
                    w1 = w\<lparr>calls := calls w @
                           [CrudGetInfosByLocDateRange location_id start end']\<rparr>
                in if found = [] then (Inl (HTTPException 404 ''Weather info not found''), w1)
                   else (Inr found, w1))))"

text \<open>\<^verbatim>\<open>update_info\<close> (lines 238 to 259).\<close>

definition update_info ::
  "int \<Rightarrow> dict \<Rightarrow> world \<Rightarrow> (error + WeatherInfo) \<times> world" where
  "update_info info_id updates w =
     (case call_crud_update_info w info_id updates of
        (None, w1) \<Rightarrow> (Inl (HTTPException 404 ''Weather info not found''), w1)
      | (Some info, w1) \<Rightarrow> (Inr info, w1))"

declare create_info_loop.simps [simp del]

section \<open>Notions used by the statements\<close>

text \<open>
  The entries that the handlers read in a response: \<^verbatim>\<open>coord.lat\<close> and
  \<^verbatim>\<open>coord.lon\<close>; \<^verbatim>\<open>main.temp\<close> and the \<^verbatim>\<open>description\<close> of the first element of
  \<^verbatim>\<open>weather\<close>.
\<close>

definition has_coord :: "json \<Rightarrow> json \<Rightarrow> json \<Rightarrow> bool" where
  "has_coord data lat lon =
     (\<exists>kvs ck. data = JObj kvs \<and> map_of kvs ''coord'' = Some (JObj ck) \<and>
        map_of ck ''lat'' = Some lat \<and> map_of ck ''lon'' = Some lon)"



text \<open>
  The coordinates of a create-location request can be had: the request carries both, or
  the provider answers the lookup of its city with a response that has them.
\<close>

definition coords_resolve :: "env \<Rightarrow> dict \<Rightarrow> bool" where
  "coords_resolve e location =
     (truthy (dict_get location ''lat'') \<and> truthy (dict_get location ''lon'') \<or>
      (\<forall>log. \<exists>data ll.
          get_weather_by_city e log (dict_get location ''city'')
            (dict_get location ''country'') = Inr data \<and>
          coord_of data = Inr ll))"

text \<open>The number of stored WeatherInfo rows of a (location, date) pair.\<close>

definition count_infos :: "database \<Rightarrow> int \<Rightarrow> date \<Rightarrow> nat" where
  "count_infos d location_id dt =
     length (filter (\<lambda>i. wi_location_id i = location_id \<and> wi_date i = dt) (infos d))"

text \<open>The errors that a handler raises itself.\<close>

fun is_http_exception :: "error \<Rightarrow> bool" where
  "is_http_exception (HTTPException code detail) = True"
| "is_http_exception _ = False"

text \<open>The provider calls of a trace, in order.\<close>

definition provider_calls :: "world \<Rightarrow> call list" where
  "provider_calls w = filter is_provider_call (calls w)"

section \<open>Sample requests\<close>

text \<open>
  A provider that answers every call with one response, on 2025-06-01 (ordinal 739403),
  with a parser that knows the dates of that week; a second one whose forecast is down.
\<close>

definition sample_response :: json where
  "sample_response =
     JObj [(''coord'', JObj [(''lat'', JNum 51), (''lon'', JNum 2)]),
           (''main'', JObj [(''temp'', JNum 21)]),
           (''weather'', JArr [JObj [(''description'', JStr ''clear sky'')]])]"

definition sample_dates :: "string \<Rightarrow> date option" where
  "sample_dates =
     map_of [(''2025-05-31'', 739402), (''2025-06-01'', 739403), (''2025-06-02'', 739404),
             (''2025-06-06'', 739408), (''2025-06-07'', 739409)]"

definition sample_env :: env where
  "sample_env =
     \<lparr>today = 739403, fromisoformat = sample_dates,
      get_weather_by_city = (\<lambda>log city country. Inr sample_response),
      get_forecast_by_date_and_city = (\<lambda>log dt city country. Inr sample_response)\<rparr>"

definition forecast_down_env :: env where
  "forecast_down_env =
     \<lparr>today = 739403, fromisoformat = sample_dates,
      get_weather_by_city = (\<lambda>log city country. Inr sample_response),
      get_forecast_by_date_and_city = (\<lambda>log dt city country. Inl ''timeout'')\<rparr>"

definition empty_world :: world where
  "empty_world = \<lparr>db = \<lparr>locations = [], infos = []\<rparr>, calls = []\<rparr>"

definition london :: WeatherLocation where
  "london = \<lparr>loc_id = 1, loc_city = JStr ''London'', loc_country = JNull,
             loc_lat = JNum 51, loc_lon = JNum 2\<rparr>"

definition london_world :: world where
  "london_world = \<lparr>db = \<lparr>locations = [london], infos = []\<rparr>, calls = []\<rparr>"

definition london_request :: "string \<Rightarrow> string \<Rightarrow> dict" where
  "london_request start_date end_date =
     [(''city'', JStr ''London''), (''start_date'', JStr start_date),
      (''end_date'', JStr end_date)]"

definition london_only :: dict where
  "london_only = [(''city'', JStr ''London'')]"

text \<open>The world after London was created in the empty world from \<open>london_only\<close>.\<close>

definition london_created :: world where
  "london_created =
     \<lparr>db = \<lparr>locations = [london], infos = []\<rparr>,
      calls = [GetWeatherByCity (JStr ''London'') JNull,
               CrudGetLocationByCity (JStr ''London'') JNull,
               CrudCreateLocation (JStr ''London'') JNull (JNum 51) (JNum 2)]\<rparr>"

definition london_at :: "real \<Rightarrow> real \<Rightarrow> dict" where
  "london_at lat lon = [(''city'', JStr ''London''), (''lat'', JNum lat), (''lon'', JNum lon)]"

definition sample_info :: "int \<Rightarrow> date \<Rightarrow> WeatherInfo" where
  "sample_info n d =
     \<lparr>wi_id = n, wi_location_id = 1, wi_date = d, wi_temperature = JNum 21,
      wi_weather_description = JStr ''clear sky'', wi_raw_data = JNull\<rparr>"

text \<open>The world after London was ingested for 2025-06-01 and 2025-06-02.\<close>

definition london_ingested :: world where
  "london_ingested =
     \<lparr>db = \<lparr>locations = [london],
             infos = [sample_info 1 739403, sample_info 2 739404]\<rparr>,
      calls = [CrudGetLocationByCity (JStr ''London'') JNull,
               CrudGetInfoByLocDate 1 739403,
               GetWeatherByCity (JStr ''London'') JNull,
               CrudCreateInfo 1 739403 (JNum 21) (JStr ''clear sky''),
               CrudGetInfoByLocDate 1 739404,
               GetForecastByDateAndCity 739404 (JStr ''London'') JNull,
               CrudCreateInfo 1 739404 (JNum 21) (JStr ''clear sky'')]\<rparr>"

section \<open>Facts about the handlers\<close>

subsection \<open>Lookups in a list\<close>

lemma find_append_Some: "find P xs = Some x \<Longrightarrow> find P (xs @ ys) = Some x"
  by (induction xs) (auto split: if_splits)

lemma find_append_None: "find P xs = None \<Longrightarrow> find P (xs @ ys) = find P ys"
  by (induction xs) (auto split: if_splits)

lemma find_Some_holds: "find P xs = Some x \<Longrightarrow> P x \<and> x \<in> set xs"
  by (induction xs) (auto split: if_splits)

lemma find_None_filter: "find P xs = None \<Longrightarrow> filter P xs = []"
  by (induction xs) (auto split: if_splits)

lemma find_Some_filter: "find P xs = Some x \<Longrightarrow> filter P xs \<noteq> []"
  by (induction xs) (auto split: if_splits)

subsection \<open>The validation of an ingestion request\<close>

lemma validate_dates:
  assumes "truthy (dict_get input ''city'')"
    and "truthy (dict_get input ''start_date'')" and "truthy (dict_get input ''end_date'')"
    and "dict_get input ''start_date'' = JStr s" and "dict_get input ''end_date'' = JStr t"
    and "fromisoformat e s = Some start" and "fromisoformat e t = Some end'"
  shows "create_info_validate e input =
     (if start > end'
      then Inl (HTTPException 400 ''start_date must be before end_date'')
      else if start < today e \<or> end' < today e
      then Inl (HTTPException 400 ''Historical data is not supported in free OpenWeather API'')
      else if start > today e + 5 \<or> end' > today e + 5
      then Inl (HTTPException 400 ''Max 5 days forecast supported in free OpenWeather API'')
      else Inr (dict_get input ''city'', dict_get input ''country'', start, end'))"
  using assms by (simp add: create_info_validate_def date_fromisoformat_def Let_def)

lemma create_info_rejected:
  "create_info_validate e input = Inl x \<Longrightarrow> create_info e input w = (Inl x, w)"
  by (simp add: create_info_def)

subsection \<open>One date of the loop\<close>

lemma getitem_Inr:
  "getitem j k = Inr v \<longleftrightarrow> (\<exists>kvs. j = JObj kvs \<and> map_of kvs k = Some v)"
  by (cases j) (auto split: option.splits)


lemma coord_of_shape: "coord_of data = Inr (lat, lon) \<longleftrightarrow> has_coord data lat lon"
proof
  assume "coord_of data = Inr (lat, lon)"
  then obtain c where "getitem data ''coord'' = Inr c" "getitem c ''lat'' = Inr lat"
    "getitem c ''lon'' = Inr lon"
    by (auto simp: coord_of_def split: sum.splits)
  then show "has_coord data lat lon"
    by (auto simp: getitem_Inr has_coord_def)
next
  assume "has_coord data lat lon"
  then show "coord_of data = Inr (lat, lon)"
    by (auto simp: has_coord_def coord_of_def)
qed




lemma date_found:
  assumes "crud_get_info_by_loc_date (db w) location_id current = Some info"
  shows "create_info_date e city country location_id current w =
           (Inr info, w\<lparr>calls := calls w @ [CrudGetInfoByLocDate location_id current]\<rparr>)"
  using assms by (simp add: create_info_date_def call_crud_get_info_by_loc_date_def)


lemma date_frame:
  assumes "create_info_date e city country location_id current w = (r, w1)"
  shows "locations (db w1) = locations (db w) \<and>
         (\<exists>new. infos (db w1) = infos (db w) @ new \<and>
            (\<forall>i\<in>set new. wi_raw_data i = JNull))"
  using assms
  by (auto simp: create_info_date_def call_crud_get_info_by_loc_date_def
      call_get_weather_by_city_def call_get_forecast_by_date_and_city_def
      call_crud_create_info_def crud_create_info_def Let_def
      split: if_splits option.splits sum.splits prod.splits)

lemma date_success:
  assumes "create_info_date e city country location_id current w = (Inr info, w1)"
  shows "crud_get_info_by_loc_date (db w1) location_id current = Some info \<and>
         wi_date info = current \<and> wi_location_id info = location_id \<and>
         count_infos (db w1) location_id current =
           max 1 (count_infos (db w) location_id current) \<and>
         (\<forall>d. d \<noteq> current \<longrightarrow>
            count_infos (db w1) location_id d = count_infos (db w) location_id d)"
proof (cases "crud_get_info_by_loc_date (db w) location_id current")
  case None
  then have "filter (\<lambda>i. wi_location_id i = location_id \<and> wi_date i = current)
               (infos (db w)) = []"
    unfolding crud_get_info_by_loc_date_def by (rule find_None_filter)
  with None assms show ?thesis
    by (auto simp: create_info_date_def call_crud_get_info_by_loc_date_def
        call_get_weather_by_city_def call_get_forecast_by_date_and_city_def
        call_crud_create_info_def crud_create_info_def Let_def count_infos_def
        crud_get_info_by_loc_date_def find_append_None
        split: if_splits sum.splits prod.splits)
next
  case (Some i)
  then have ne: "filter (\<lambda>i. wi_location_id i = location_id \<and> wi_date i = current)
               (infos (db w)) \<noteq> []"
    unfolding crud_get_info_by_loc_date_def by (rule find_Some_filter)
  from Some have "wi_location_id i = location_id \<and> wi_date i = current"
    unfolding crud_get_info_by_loc_date_def by (auto dest: find_Some_holds)
  moreover from ne have "max 1 (count_infos (db w) location_id current)
      = count_infos (db w) location_id current"
    by (cases "filter (\<lambda>i. wi_location_id i = location_id \<and> wi_date i = current)
               (infos (db w))") (auto simp: count_infos_def)
  ultimately show ?thesis
    using assms Some date_found [OF Some, of e city country]
    by (auto simp: count_infos_def crud_get_info_by_loc_date_def)
qed


lemma lookup_stable:
  assumes "infos (db w') = infos (db w) @ new"
    and "crud_get_info_by_loc_date (db w) location_id d = Some i"
  shows "crud_get_info_by_loc_date (db w') location_id d = Some i"
  using assms by (simp add: crud_get_info_by_loc_date_def find_append_Some)

lemma count_found:
  assumes "crud_get_info_by_loc_date d location_id dt = Some info"
  shows "max 1 (count_infos d location_id dt) = count_infos d location_id dt"
proof -
  from assms have "filter (\<lambda>i. wi_location_id i = location_id \<and> wi_date i = dt) (infos d) \<noteq> []"
    unfolding crud_get_info_by_loc_date_def by (rule find_Some_filter)
  then show ?thesis
    by (cases "filter (\<lambda>i. wi_location_id i = location_id \<and> wi_date i = dt) (infos d)")
      (auto simp: count_infos_def)
qed

subsection \<open>The loop over the dates\<close>

lemma loop_frame:
  assumes "create_info_loop e city country location_id current end' acc w = (r, w')"
  shows "locations (db w') = locations (db w) \<and>
         (\<exists>new. infos (db w') = infos (db w) @ new \<and>
            (\<forall>i\<in>set new. wi_raw_data i = JNull))"
  using assms
proof (induction e city country location_id current end' acc w
    rule: create_info_loop.induct)
  case (1 e city country location_id current end' acc w)
  show ?case
  proof (cases "current \<le> end'")
    case False
    with "1.prems" show ?thesis by (simp add: create_info_loop.simps)
  next
    case True
    obtain x w1 where step: "create_info_date e city country location_id current w = (x, w1)"
      by (cases "create_info_date e city country location_id current w")
    note fr = date_frame [OF step]
    show ?thesis
    proof (cases x)
      case (Inl err)
      with True step "1.prems" have "w' = w1"
        by (simp add: create_info_loop.simps)
      with fr show ?thesis by simp
    next
      case (Inr info)
      with True step "1.prems" have
        "create_info_loop e city country location_id (current + 1) end' (acc @ [info]) w1
           = (r, w')"
        by (simp add: create_info_loop.simps)
      from "1.IH" [OF True step [symmetric] Inr this] fr show ?thesis
        by auto
    qed
  qed
qed


lemma loop_success:
  assumes "create_info_loop e city country location_id current end' acc w = (Inr recs, w')"
  shows "\<exists>rs. recs = acc @ rs \<and> map wi_date rs = [current..end'] \<and>
           (\<forall>i\<in>set rs. wi_location_id i = location_id) \<and>
           map (crud_get_info_by_loc_date (db w') location_id) [current..end'] = map Some rs \<and>
           (\<forall>d. count_infos (db w') location_id d =
              (if current \<le> d \<and> d \<le> end' then max 1 (count_infos (db w) location_id d)
               else count_infos (db w) location_id d))"
  using assms
proof (induction e city country location_id current end' acc w
    rule: create_info_loop.induct)
  case (1 e city country location_id current end' acc w)
  show ?case
  proof (cases "current \<le> end'")
    case False
    with "1.prems" show ?thesis by (simp add: create_info_loop.simps)
  next
    case True
    obtain x w1 where step: "create_info_date e city country location_id current w = (x, w1)"
      by (cases "create_info_date e city country location_id current w")
    show ?thesis
    proof (cases x)
      case (Inl err)
      with True step "1.prems" show ?thesis
        by (simp add: create_info_loop.simps)
    next
      case (Inr info)
      with True step "1.prems" have rest:
        "create_info_loop e city country location_id (current + 1) end' (acc @ [info]) w1
           = (Inr recs, w')"
        by (simp add: create_info_loop.simps)
      from "1.IH" [OF True step [symmetric] Inr rest] obtain rs where
        recs: "recs = (acc @ [info]) @ rs"
        and dates: "map wi_date rs = [current + 1..end']"
        and locs: "\<forall>i\<in>set rs. wi_location_id i = location_id"
        and found: "map (crud_get_info_by_loc_date (db w') location_id) [current + 1..end']
                      = map Some rs"
        and cnt: "\<forall>d. count_infos (db w') location_id d =
              (if current + 1 \<le> d \<and> d \<le> end' then max 1 (count_infos (db w1) location_id d)
               else count_infos (db w1) location_id d)"
        by blast
      from step Inr have s: "create_info_date e city country location_id current w
                               = (Inr info, w1)" by simp
      note ds = date_success [OF s]
      from loop_frame [OF rest] obtain new where "infos (db w') = infos (db w1) @ new"
        by blast
      from lookup_stable [OF this] ds
      have here: "crud_get_info_by_loc_date (db w') location_id current = Some info"
        by blast
      have up: "[current..end'] = current # [current + 1..end']"
        using True by (rule upto_rec1)
      have "recs = acc @ (info # rs)" using recs by simp
      moreover have "map wi_date (info # rs) = [current..end']"
        using dates ds up by simp
      moreover have "\<forall>i\<in>set (info # rs). wi_location_id i = location_id"
        using locs ds by simp
      moreover have "map (crud_get_info_by_loc_date (db w') location_id) [current..end']
                       = map Some (info # rs)"
        using found here up by simp
      moreover have "\<forall>d. count_infos (db w') location_id d =
              (if current \<le> d \<and> d \<le> end' then max 1 (count_infos (db w) location_id d)
               else count_infos (db w) location_id d)"
      proof
        fix d
        show "count_infos (db w') location_id d =
              (if current \<le> d \<and> d \<le> end' then max 1 (count_infos (db w) location_id d)
               else count_infos (db w) location_id d)"
        proof (cases "d = current")
          case True
          with cnt ds \<open>current \<le> end'\<close> show ?thesis by simp
        next
          case False
          with ds have "count_infos (db w1) location_id d = count_infos (db w) location_id d"
            by blast
          with cnt False show ?thesis by auto
        qed
      qed
      ultimately show ?thesis by blast
    qed
  qed
qed

lemma loop_again:
  assumes "map (crud_get_info_by_loc_date (db w) location_id) [current..end'] = map Some rs"
  shows "\<exists>w'. create_info_loop e city country location_id current end' acc w
                 = (Inr (acc @ rs), w') \<and>
               db w' = db w \<and> provider_calls w' = provider_calls w"
  using assms
proof (induction e city country location_id current end' acc w arbitrary: rs
    rule: create_info_loop.induct)
  case (1 e city country location_id current end' acc w)
  show ?case
  proof (cases "current \<le> end'")
    case False
    with "1.prems" show ?thesis by (simp add: create_info_loop.simps)
  next
    case True
    then have up: "[current..end'] = current # [current + 1..end']"
      by (rule upto_rec1)
    with "1.prems" obtain info rs' where rs: "rs = info # rs'"
      and here: "crud_get_info_by_loc_date (db w) location_id current = Some info"
      and rest: "map (crud_get_info_by_loc_date (db w) location_id) [current + 1..end']
                   = map Some rs'"
      by (cases rs) auto
    let ?w1 = "w\<lparr>calls := calls w @ [CrudGetInfoByLocDate location_id current]\<rparr>"
    have step: "create_info_date e city country location_id current w = (Inr info, ?w1)"
      using here by (rule date_found)
    from rest have "map (crud_get_info_by_loc_date (db ?w1) location_id) [current + 1..end']
                   = map Some rs'" by simp
    from "1.IH" [OF True step [symmetric] refl this] obtain w' where
      "create_info_loop e city country location_id (current + 1) end' (acc @ [info]) ?w1
         = (Inr ((acc @ [info]) @ rs'), w')"
      and "db w' = db ?w1" and "provider_calls w' = provider_calls ?w1"
      by blast
    with True step rs show ?thesis
      by (simp add: create_info_loop.simps [of e city country location_id current]
          provider_calls_def)
  qed
qed

subsection \<open>The location of an ingestion request\<close>

lemma location_frame:
  assumes "create_info_location e city country w = (r, w1)"
  shows "infos (db w1) = infos (db w)"
  using assms
  by (auto simp: create_info_location_def call_crud_get_location_by_city_def
      call_get_weather_by_city_def call_crud_create_location_def crud_create_location_def
      Let_def split: option.splits sum.splits prod.splits)

lemma location_again:
  assumes "crud_get_location_by_city (db w) city country = Some loc"
  shows "create_info_location e city country w =
           (Inr loc, w\<lparr>calls := calls w @ [CrudGetLocationByCity city country]\<rparr>)"
  using assms by (simp add: create_info_location_def call_crud_get_location_by_city_def)

lemma location_success:
  assumes "create_info_location e city country w = (Inr loc, w1)"
  shows "crud_get_location_by_city (db w1) city country = Some loc"
proof (cases "crud_get_location_by_city (db w) city country")
  case (Some l)
  with assms location_again [OF Some, of e] show ?thesis by auto
next
  case None
  with assms show ?thesis
    by (auto simp: create_info_location_def call_crud_get_location_by_city_def
        call_get_weather_by_city_def call_crud_create_location_def crud_create_location_def
        crud_get_location_by_city_def find_append_None
        Let_def split: sum.splits prod.splits)
qed


lemma create_info_split:
  assumes "create_info_validate e input = Inr (city, country, start, end')"
    and "create_info e input w = (Inr recs, w')"
  shows "\<exists>loc w1. create_info_location e city country w = (Inr loc, w1) \<and>
           create_info_loop e city country (loc_id loc) start end' [] w1 = (Inr recs, w')"
  using assms
  by (cases "create_info_location e city country w")
    (auto simp: create_info_def split: sum.splits)

subsection \<open>Creating a location\<close>

lemma create_location_no_city:
  assumes "\<not> truthy (dict_get location ''city'')"
  shows "create_location e location w = (Inl (HTTPException 400 ''city is required''), w)"
  using assms by (simp add: create_location_def Let_def)

lemma create_location_given:
  assumes "truthy (dict_get location ''city'')"
    and "truthy (dict_get location ''lat'')" and "truthy (dict_get location ''lon'')"
  shows "create_location e location w =
     (let city = dict_get location ''city''; country = dict_get location ''country'';
          lat = dict_get location ''lat''; lon = dict_get location ''lon''
      in case crud_get_location_by_city (db w) city country of
           Some l \<Rightarrow>
             (Inl (HTTPException 400 ''Location already exists''),
              w\<lparr>calls := calls w @ [CrudGetLocationByCity city country]\<rparr>)
         | None \<Rightarrow>
             (let l = \<lparr>loc_id = fresh_id (map loc_id (locations (db w))), loc_city = city,
                        loc_country = country, loc_lat = lat, loc_lon = lon\<rparr>
              in (Inr l,
                  \<lparr>db = (db w)\<lparr>locations := locations (db w) @ [l]\<rparr>,
                   calls = calls w @ [CrudGetLocationByCity city country,
                                      CrudCreateLocation city country lat lon]\<rparr>)))"
  using assms
  by (simp add: create_location_def Let_def call_crud_get_location_by_city_def
      call_crud_create_location_def crud_create_location_def split: option.splits)

lemma create_location_fetched:
  assumes "truthy (dict_get location ''city'')"
    and "\<not> truthy (dict_get location ''lat'') \<or> \<not> truthy (dict_get location ''lon'')"
  shows "create_location e location w =
     (let city = dict_get location ''city''; country = dict_get location ''country'';
          w1 = w\<lparr>calls := calls w @ [GetWeatherByCity city country]\<rparr>
      in case get_weather_by_city e (calls w) city country of
           Inl msg \<Rightarrow> (Inl (CollaboratorError msg), w1)
         | Inr data \<Rightarrow>
             (case coord_of data of
                Inl x \<Rightarrow> (Inl x, w1)
              | Inr (lat, lon) \<Rightarrow>
                  (case crud_get_location_by_city (db w) city country of
                     Some l \<Rightarrow>
                       (Inl (HTTPException 400 ''Location already exists''),
                        w\<lparr>calls := calls w @ [GetWeatherByCity city country,
                                               CrudGetLocationByCity city country]\<rparr>)
                   | None \<Rightarrow>
                       (let l = \<lparr>loc_id = fresh_id (map loc_id (locations (db w))),
                                  loc_city = city, loc_country = country,
                                  loc_lat = lat, loc_lon = lon\<rparr>
                        in (Inr l,
                            \<lparr>db = (db w)\<lparr>locations := locations (db w) @ [l]\<rparr>,
                             calls = calls w @ [GetWeatherByCity city country,
                                                CrudGetLocationByCity city country,
                                                CrudCreateLocation city country lat lon]\<rparr>)))))"
  using assms
  by (auto simp: create_location_def Let_def call_crud_get_location_by_city_def
      call_get_weather_by_city_def
      call_crud_create_location_def crud_create_location_def
      split: option.splits sum.splits prod.splits)

lemma appended_location_found:
  assumes "crud_get_location_by_city d city country = None"
    and "loc_city l = city" and "loc_country l = country"
  shows "crud_get_location_by_city (d\<lparr>locations := locations d @ [l]\<rparr>) city country = Some l"
  using assms by (simp add: crud_get_location_by_city_def find_append_None)

lemma create_location_conflict:
  assumes "truthy (dict_get location ''city'')" and "coords_resolve e location"
    and "crud_get_location_by_city (db w) (dict_get location ''city'')
           (dict_get location ''country'') = Some l"
  shows "\<exists>w'. create_location e location w =
                 (Inl (HTTPException 400 ''Location already exists''), w') \<and> db w' = db w"
proof (cases "truthy (dict_get location ''lat'') \<and> truthy (dict_get location ''lon'')")
  case True
  with assms show ?thesis by (simp add: create_location_given Let_def)
next
  case False
  with assms(2) obtain data ll where
    "get_weather_by_city e (calls w) (dict_get location ''city'')
       (dict_get location ''country'') = Inr data" and "coord_of data = Inr ll"
    unfolding coords_resolve_def by blast
  with False assms(1,3) show ?thesis
    by (cases ll) (simp add: create_location_fetched Let_def)
qed

lemma create_location_new:
  assumes "truthy (dict_get location ''city'')" and "coords_resolve e location"
    and "crud_get_location_by_city (db w) (dict_get location ''city'')
           (dict_get location ''country'') = None"
  shows "\<exists>l w'. create_location e location w = (Inr l, w') \<and>
           loc_city l = dict_get location ''city'' \<and>
           loc_country l = dict_get location ''country'' \<and>
           locations (db w') = locations (db w) @ [l] \<and> infos (db w') = infos (db w) \<and>
           crud_get_location_by_city (db w') (dict_get location ''city'')
             (dict_get location ''country'') = Some l"
proof (cases "truthy (dict_get location ''lat'') \<and> truthy (dict_get location ''lon'')")
  case True
  with assms show ?thesis
    by (simp add: create_location_given Let_def appended_location_found)
next
  case False
  with assms(2) obtain data ll where
    "get_weather_by_city e (calls w) (dict_get location ''city'')
       (dict_get location ''country'') = Inr data" and "coord_of data = Inr ll"
    unfolding coords_resolve_def by blast
  with False assms(1,3) show ?thesis
    by (cases ll) (simp add: create_location_fetched Let_def appended_location_found)
qed

lemma create_location_stored:
  assumes "truthy (dict_get location ''city'')"
    and "crud_get_location_by_city (db w) (dict_get location ''city'')
           (dict_get location ''country'') = Some l"
  shows "\<exists>x w'. create_location e location w = (Inl x, w') \<and> db w' = db w"
proof (cases "truthy (dict_get location ''lat'') \<and> truthy (dict_get location ''lon'')")
  case True
  with assms show ?thesis by (simp add: create_location_given Let_def)
next
  case False
  then have f: "\<not> truthy (dict_get location ''lat'') \<or> \<not> truthy (dict_get location ''lon'')"
    by simp
  show ?thesis
    unfolding create_location_fetched [OF assms(1) f]
    using assms(2) by (simp add: Let_def split: sum.splits prod.splits)
qed

subsection \<open>Which errors come from where\<close>

lemma getitem_not_http: "getitem j k = Inl x \<Longrightarrow> \<not> is_http_exception x"
  by (cases j) (auto split: option.splits)

lemma getitem0_not_http: "getitem0 j = Inl x \<Longrightarrow> \<not> is_http_exception x"
  by (cases j rule: getitem0.cases) auto

lemma coord_of_not_http: "coord_of data = Inl x \<Longrightarrow> \<not> is_http_exception x"
  by (auto simp: coord_of_def split: sum.splits dest: getitem_not_http)

lemma temp_desc_of_not_http: "temp_desc_of data = Inl x \<Longrightarrow> \<not> is_http_exception x"
  by (auto simp: temp_desc_of_def split: sum.splits
      dest: getitem_not_http getitem0_not_http)

lemma location_not_http:
  assumes "create_info_location e city country w = (Inl x, w1)"
  shows "\<not> is_http_exception x"
  using assms
  by (auto simp: create_info_location_def call_crud_get_location_by_city_def
      call_get_weather_by_city_def call_crud_create_location_def crud_create_location_def
      Let_def split: option.splits sum.splits prod.splits dest: coord_of_not_http)

lemma date_not_http:
  assumes "create_info_date e city country location_id current w = (Inl x, w1)"
  shows "\<not> is_http_exception x"
  using assms
  by (auto simp: create_info_date_def call_crud_get_info_by_loc_date_def
      call_get_weather_by_city_def call_get_forecast_by_date_and_city_def
      call_crud_create_info_def crud_create_info_def Let_def
      split: if_splits option.splits sum.splits prod.splits dest: temp_desc_of_not_http)

lemma loop_not_http:
  assumes "create_info_loop e city country location_id current end' acc w = (Inl x, w')"
  shows "\<not> is_http_exception x"
  using assms
proof (induction e city country location_id current end' acc w
    rule: create_info_loop.induct)
  case (1 e city country location_id current end' acc w)
  show ?case
  proof (cases "current \<le> end'")
    case False
    with "1.prems" show ?thesis by (simp add: create_info_loop.simps)
  next
    case True
    obtain y w1 where step: "create_info_date e city country location_id current w = (y, w1)"
      by (cases "create_info_date e city country location_id current w")
    show ?thesis
    proof (cases y)
      case (Inl err)
      with True step "1.prems" have "x = err"
        by (simp add: create_info_loop.simps)
      with step Inl date_not_http show ?thesis by blast
    next
      case (Inr info)
      with True step "1.prems" have
        "create_info_loop e city country location_id (current + 1) end' (acc @ [info]) w1
           = (Inl x, w')"
        by (simp add: create_info_loop.simps)
      from "1.IH" [OF True step [symmetric] Inr this] show ?thesis .
    qed
  qed
qed

lemma create_info_http:
  assumes "create_info e input w = (Inl x, w')" and "is_http_exception x"
  shows "w' = w"
proof (cases "create_info_validate e input")
  case (Inl y)
  with assms(1) show ?thesis by (simp add: create_info_rejected)
next
  case (Inr v)
  obtain city country start end' where v: "v = (city, country, start, end')"
    by (cases v)
  obtain y w1 where l: "create_info_location e city country w = (y, w1)"
    by (cases "create_info_location e city country w")
  show ?thesis
  proof (cases y)
    case (Inl err)
    with Inr v l assms(1) have "x = err" by (simp add: create_info_def)
    with l Inl location_not_http assms(2) show ?thesis by blast
  next
    case r: (Inr loc)
    with Inr v l assms(1) have
      "create_info_loop e city country (loc_id loc) start end' [] w1 = (Inl x, w')"
      by (simp add: create_info_def)
    from loop_not_http [OF this] assms(2) show ?thesis by simp
  qed
qed

lemma create_location_http:
  assumes "create_location e location w = (Inl (HTTPException code detail), w')"
  shows "detail = ''city is required'' \<and> w' = w \<or>
         detail = ''Location already exists'' \<and> db w' = db w \<and>
         calls w' = calls w @
           (if truthy (dict_get location ''lat'') \<and> truthy (dict_get location ''lon'')
            then []
            else [GetWeatherByCity (dict_get location ''city'')
                    (dict_get location ''country'')]) @
           [CrudGetLocationByCity (dict_get location ''city'') (dict_get location ''country'')]"
proof (cases "truthy (dict_get location ''city'')")
  case False
  with assms show ?thesis by (simp add: create_location_no_city)
next
  case True
  show ?thesis
  proof (cases "truthy (dict_get location ''lat'') \<and> truthy (dict_get location ''lon'')")
    case t: True
    with assms True show ?thesis
      by (auto simp: create_location_given Let_def split: option.splits)
  next
    case False
    then have f: "\<not> truthy (dict_get location ''lat'') \<or> \<not> truthy (dict_get location ''lon'')"
      by simp
    from assms show ?thesis
      unfolding create_location_fetched [OF True f]
      by (auto simp: Let_def False split: option.splits sum.splits prod.splits
          dest: coord_of_not_http)
  qed
qed

subsection \<open>The partial update\<close>

lemma apply_updates_keeps:
  "wi_id (apply_updates updates i) = wi_id i"
  "wi_location_id (apply_updates updates i) = wi_location_id i"
  "wi_date (apply_updates updates i) = wi_date i"
  by (simp_all add: apply_updates_def)

lemma update_first_others:
  "filter (\<lambda>j. wi_id j \<noteq> info_id) (update_first info_id updates xs) =
   filter (\<lambda>j. wi_id j \<noteq> info_id) xs"
  by (induction xs) (simp_all add: apply_updates_keeps)

lemma update_first_length: "length (update_first info_id updates xs) = length xs"
  by (induction xs) simp_all

lemma update_first_find:
  assumes "find (\<lambda>j. wi_id j = info_id) xs = Some i"
  shows "find (\<lambda>j. wi_id j = info_id) (update_first info_id updates xs)
           = Some (apply_updates updates i)"
  using assms by (induction xs) (auto simp: apply_updates_keeps split: if_splits)

subsection \<open>The sample requests, evaluated\<close>

lemmas sample_defs =
  dict_get_def london_request_def sample_env_def forecast_down_env_def sample_dates_def
  sample_response_def empty_world_def london_def london_world_def sample_info_def
  london_ingested_def london_only_def london_created_def london_at_def

lemmas handler_defs =
  create_info_def create_info_validate_def date_fromisoformat_def create_info_location_def
  create_info_date_def create_info_loop.simps coord_of_def temp_desc_of_def
  call_get_weather_by_city_def call_get_forecast_by_date_and_city_def
  call_crud_get_location_by_city_def call_crud_create_location_def
  call_crud_get_info_by_loc_date_def call_crud_create_info_def
  crud_get_location_by_city_def crud_create_location_def crud_get_info_by_loc_date_def
  crud_create_info_def fresh_id_def Let_def




lemma sample_run_two_dates:
  "create_info sample_env (london_request ''2025-06-01'' ''2025-06-02'') london_world =
     (Inr [sample_info 1 739403, sample_info 2 739404], london_ingested)"
  by (simp add: handler_defs sample_defs)

lemma sample_create_london:
  "create_location sample_env london_only empty_world = (Inr london, london_created)"
  by (simp add: create_location_def call_get_weather_by_city_def coord_of_def
      call_crud_get_location_by_city_def crud_get_location_by_city_def
      call_crud_create_location_def crud_create_location_def fresh_id_def Let_def
      sample_defs)

lemma sample_partial_ingestion:
  "create_info forecast_down_env (london_request ''2025-06-01'' ''2025-06-02'') london_world =
     (Inl (CollaboratorError ''timeout''),
      \<lparr>db = \<lparr>locations = [london], infos = [sample_info 1 739403]\<rparr>,
       calls = [CrudGetLocationByCity (JStr ''London'') JNull,
                CrudGetInfoByLocDate 1 739403,
                GetWeatherByCity (JStr ''London'') JNull,
                CrudCreateInfo 1 739403 (JNum 21) (JStr ''clear sky''),
                CrudGetInfoByLocDate 1 739404,
                GetForecastByDateAndCity 739404 (JStr ''London'') JNull]\<rparr>)"
  by (simp add: handler_defs sample_defs)

lemma sample_conflict:
  "create_location sample_env london_only london_world =
     (Inl (HTTPException 400 ''Location already exists''),
      \<lparr>db = db london_world,
       calls = [GetWeatherByCity (JStr ''London'') JNull,
                CrudGetLocationByCity (JStr ''London'') JNull]\<rparr>)"
  by (simp add: create_location_def call_get_weather_by_city_def coord_of_def
      call_crud_get_location_by_city_def crud_get_location_by_city_def
      call_crud_create_location_def crud_create_location_def fresh_id_def Let_def
      sample_defs)

section \<open>The claims\<close>



text \<open>
  C2. Ingestion is idempotent per (location, date). A date whose record exists is answered
  with that record: the step only looks it up, calls no provider and creates nothing.
  After a successful run the returned records are the stored records of the dates of the
  range, a record that existed before is still the record of its date, and each date of
  the range has as many rows as before, or one if it had none, so at most one when it had
  at most one. Running the same request again returns the same records, leaves the store
  as it is and calls no provider.
\<close>

theorem create_info_idempotent:
  assumes "create_info_validate e input = Inr (city, country, start, end')"
    and "create_info e input w = (Inr recs, w1)"
  shows "\<exists>loc w2.
     crud_get_location_by_city (db w1) city country = Some loc \<and>
     map (crud_get_info_by_loc_date (db w1) (loc_id loc)) [start..end'] = map Some recs \<and>
     (\<forall>d info. crud_get_info_by_loc_date (db w) (loc_id loc) d = Some info \<longrightarrow>
        crud_get_info_by_loc_date (db w1) (loc_id loc) d = Some info \<and>
        count_infos (db w1) (loc_id loc) d = count_infos (db w) (loc_id loc) d) \<and>
     (\<forall>d. count_infos (db w1) (loc_id loc) d =
        (if start \<le> d \<and> d \<le> end' then max 1 (count_infos (db w) (loc_id loc) d)
         else count_infos (db w) (loc_id loc) d)) \<and>
     (\<forall>d. count_infos (db w) (loc_id loc) d \<le> 1 \<longrightarrow>
        count_infos (db w1) (loc_id loc) d \<le> 1) \<and>
     (\<forall>d info w0. crud_get_info_by_loc_date (db w0) (loc_id loc) d = Some info \<longrightarrow>
        create_info_date e city country (loc_id loc) d w0 =
          (Inr info, w0\<lparr>calls := calls w0 @ [CrudGetInfoByLocDate (loc_id loc) d]\<rparr>)) \<and>
     create_info e input w1 = (Inr recs, w2) \<and> db w2 = db w1 \<and>
     provider_calls w2 = provider_calls w1"
proof -
  from create_info_split [OF assms] obtain loc w0 where
    l: "create_info_location e city country w = (Inr loc, w0)"
    and r: "create_info_loop e city country (loc_id loc) start end' [] w0 = (Inr recs, w1)"
    by blast
  let ?lid = "loc_id loc"
  from loop_success [OF r] have
    found: "map (crud_get_info_by_loc_date (db w1) ?lid) [start..end'] = map Some recs"
    and cnt0: "\<forall>d. count_infos (db w1) ?lid d =
        (if start \<le> d \<and> d \<le> end' then max 1 (count_infos (db w0) ?lid d)
         else count_infos (db w0) ?lid d)"
    by auto
  have same: "infos (db w0) = infos (db w)"
    using l by (rule location_frame)
  then have c0: "count_infos (db w0) ?lid d = count_infos (db w) ?lid d" for d
    by (simp add: count_infos_def)
  with cnt0 have cnt: "\<forall>d. count_infos (db w1) ?lid d =
        (if start \<le> d \<and> d \<le> end' then max 1 (count_infos (db w) ?lid d)
         else count_infos (db w) ?lid d)"
    by simp
  then have atmost: "\<forall>d. count_infos (db w) ?lid d \<le> 1 \<longrightarrow>
        count_infos (db w1) ?lid d \<le> 1"
    by simp
  from loop_frame [OF r] obtain new where
    locs: "locations (db w1) = locations (db w0)"
    and ext: "infos (db w1) = infos (db w) @ new"
    using same by auto
  have here: "crud_get_location_by_city (db w1) city country = Some loc"
    using location_success [OF l] locs by (simp add: crud_get_location_by_city_def)
  have kept: "\<forall>d info. crud_get_info_by_loc_date (db w) ?lid d = Some info \<longrightarrow>
        crud_get_info_by_loc_date (db w1) ?lid d = Some info \<and>
        count_infos (db w1) ?lid d = count_infos (db w) ?lid d"
  proof (intro allI impI)
    fix d info
    assume f: "crud_get_info_by_loc_date (db w) ?lid d = Some info"
    from lookup_stable [OF ext f] count_found [OF f] cnt
    show "crud_get_info_by_loc_date (db w1) ?lid d = Some info \<and>
        count_infos (db w1) ?lid d = count_infos (db w) ?lid d"
      by simp
  qed
  let ?w1' = "w1\<lparr>calls := calls w1 @ [CrudGetLocationByCity city country]\<rparr>"
  have l2: "create_info_location e city country w1 = (Inr loc, ?w1')"
    using here by (rule location_again)
  from found have "map (crud_get_info_by_loc_date (db ?w1') ?lid) [start..end'] = map Some recs"
    by simp
  from loop_again [OF this, of e city country "[]"] obtain w2 where
    r2: "create_info_loop e city country ?lid start end' [] ?w1' = (Inr recs, w2)"
    and d2: "db w2 = db ?w1'" and p2: "provider_calls w2 = provider_calls ?w1'"
    by auto
  have "create_info e input w1 = (Inr recs, w2)"
    using assms(1) l2 r2 by (simp add: create_info_def)
  moreover have "db w2 = db w1" using d2 by simp
  moreover have "provider_calls w2 = provider_calls w1"
    using p2 by (simp add: provider_calls_def)
  ultimately show ?thesis
    using here found kept cnt atmost date_found by blast
qed

theorem create_info_idempotent_witness:
  "create_info_validate sample_env (london_request ''2025-06-01'' ''2025-06-02'') =
     Inr (JStr ''London'', JNull, 739403, 739404) \<and>
   create_info sample_env (london_request ''2025-06-01'' ''2025-06-02'') london_world =
     (Inr [sample_info 1 739403, sample_info 2 739404], london_ingested) \<and>
   (\<exists>w2. create_info sample_env (london_request ''2025-06-01'' ''2025-06-02'')
            london_ingested = (Inr [sample_info 1 739403, sample_info 2 739404], w2) \<and>
          db w2 = db london_ingested \<and>
          provider_calls w2 = provider_calls london_ingested) \<and>
   count_infos (db london_ingested) 1 739403 = 1 \<and>
   count_infos (db london_ingested) 1 739404 = 1"
proof -
  have v: "create_info_validate sample_env (london_request ''2025-06-01'' ''2025-06-02'') =
     Inr (JStr ''London'', JNull, 739403, 739404)"
    by (simp add: create_info_validate_def date_fromisoformat_def Let_def sample_defs)
  note r = sample_run_two_dates
  from create_info_idempotent [OF v r]
  have "\<exists>w2. create_info sample_env (london_request ''2025-06-01'' ''2025-06-02'')
            london_ingested = (Inr [sample_info 1 739403, sample_info 2 739404], w2) \<and>
          db w2 = db london_ingested \<and>
          provider_calls w2 = provider_calls london_ingested"
    by blast
  moreover have "count_infos (db london_ingested) 1 739403 = 1"
    and "count_infos (db london_ingested) 1 739404 = 1"
    by (simp_all add: count_infos_def sample_defs)
  ultimately show ?thesis using v r by simp
qed



text \<open>
  C4. When both dates parse and start is not after end, the request is rejected with the
  bad request "Historical data is not supported" if start or end is before today, with the
  bad request "Max 5 days forecast supported" if start or end is after today + 5, and the
  validation passes otherwise. A rejected request leaves the world as it was.
\<close>

theorem create_info_horizon_checks:
  assumes "truthy (dict_get input ''city'')"
    and "truthy (dict_get input ''start_date'')" and "truthy (dict_get input ''end_date'')"
    and "dict_get input ''start_date'' = JStr s" and "dict_get input ''end_date'' = JStr t"
    and "fromisoformat e s = Some start" and "fromisoformat e t = Some end'"
    and "start \<le> end'"
  shows "(start < today e \<or> end' < today e \<longrightarrow>
            create_info e input w =
              (Inl (HTTPException 400
                 ''Historical data is not supported in free OpenWeather API''), w)) \<and>
         (\<not> (start < today e \<or> end' < today e) \<and>
          (start > today e + 5 \<or> end' > today e + 5) \<longrightarrow>
            create_info e input w =
              (Inl (HTTPException 400
                 ''Max 5 days forecast supported in free OpenWeather API''), w)) \<and>
         (\<not> (start < today e \<or> end' < today e) \<and>
          \<not> (start > today e + 5 \<or> end' > today e + 5) \<longrightarrow>
            create_info_validate e input =
              Inr (dict_get input ''city'', dict_get input ''country'', start, end'))"
proof -
  note v = validate_dates [OF assms(1-7)]
  show ?thesis
    using assms(8) by (auto simp: v create_info_rejected)
qed

theorem create_info_horizon_checks_witness:
  "fromisoformat sample_env ''2025-05-31'' = Some 739402 \<and>
   fromisoformat sample_env ''2025-06-02'' = Some 739404 \<and>
   fromisoformat sample_env ''2025-06-07'' = Some 739409 \<and>
   739402 < today sample_env \<and> 739409 > today sample_env + 5 \<and>
   create_info sample_env (london_request ''2025-05-31'' ''2025-06-02'') london_world =
     (Inl (HTTPException 400 ''Historical data is not supported in free OpenWeather API''),
      london_world) \<and>
   create_info sample_env (london_request ''2025-06-02'' ''2025-06-07'') london_world =
     (Inl (HTTPException 400 ''Max 5 days forecast supported in free OpenWeather API''),
      london_world)"
proof -
  have s: "fromisoformat sample_env ''2025-05-31'' = Some 739402"
    and t: "fromisoformat sample_env ''2025-06-02'' = Some 739404"
    and u: "fromisoformat sample_env ''2025-06-07'' = Some 739409"
    and d: "739402 < today sample_env" "739409 > today sample_env + 5"
    by (simp_all add: sample_defs)
  from create_info_horizon_checks [OF _ _ _ _ _ s t, where w = london_world
      and input = "london_request ''2025-05-31'' ''2025-06-02''"] d
  have a: "create_info sample_env (london_request ''2025-05-31'' ''2025-06-02'') london_world =
     (Inl (HTTPException 400 ''Historical data is not supported in free OpenWeather API''),
      london_world)"
    by (simp add: sample_defs)
  from create_info_horizon_checks [OF _ _ _ _ _ t u, where w = london_world
      and input = "london_request ''2025-06-02'' ''2025-06-07''"] d
  have b: "create_info sample_env (london_request ''2025-06-02'' ''2025-06-07'') london_world =
     (Inl (HTTPException 400 ''Max 5 days forecast supported in free OpenWeather API''),
      london_world)"
    by (simp add: sample_defs)
  from s t u d a b show ?thesis by simp
qed

text \<open>
  C5. When both dates parse and start is after end, the request is rejected with the bad
  request "start_date must be before end_date" and the world is as it was: no collaborator
  was called, no Location was looked up or created, no WeatherInfo was created.
\<close>

theorem create_info_start_after_end:
  assumes "truthy (dict_get input ''city'')"
    and "truthy (dict_get input ''start_date'')" and "truthy (dict_get input ''end_date'')"
    and "dict_get input ''start_date'' = JStr s" and "dict_get input ''end_date'' = JStr t"
    and "fromisoformat e s = Some start" and "fromisoformat e t = Some end'"
    and "start > end'"
  shows "create_info e input w =
           (Inl (HTTPException 400 ''start_date must be before end_date''), w)"
proof -
  note v = validate_dates [OF assms(1-7)]
  show ?thesis
    using assms(8) by (simp add: v create_info_rejected)
qed

theorem create_info_start_after_end_witness:
  "fromisoformat sample_env ''2025-06-02'' = Some 739404 \<and>
   fromisoformat sample_env ''2025-06-01'' = Some 739403 \<and>
   create_info sample_env (london_request ''2025-06-02'' ''2025-06-01'') london_world =
     (Inl (HTTPException 400 ''start_date must be before end_date''), london_world)"
proof -
  have s: "fromisoformat sample_env ''2025-06-02'' = Some 739404"
    and t: "fromisoformat sample_env ''2025-06-01'' = Some 739403"
    by (simp_all add: sample_defs)
  from create_info_start_after_end [OF _ _ _ _ _ s t, where w = london_world
      and input = "london_request ''2025-06-02'' ''2025-06-01''"]
  have "create_info sample_env (london_request ''2025-06-02'' ''2025-06-01'') london_world =
     (Inl (HTTPException 400 ''start_date must be before end_date''), london_world)"
    by (simp add: sample_defs)
  with s t show ?thesis by simp
qed

text \<open>
  C6, as the code has it. A bad request of ingestion or of the two by-date queries, and
  the missing city of create-location, are raised before any collaborator call: the world
  is as it was. The conflict of create-location is found after the coordinates were
  resolved: the store is unchanged, and the trace has the provider's current-weather call
  when lat or lon was falsy, then the lookup of the location. In the loop of ingestion a
  failure at a later date leaves the record of an earlier date in the store.
\<close>

theorem rejections_and_collaborator_calls:
  "(create_info e input w = (Inl (HTTPException code1 detail1), w1) \<longrightarrow> w1 = w) \<and>
   (get_info_by_loc_date e location_id look_up_date w =
      (Inl (HTTPException 400 detail2), w2) \<longrightarrow> w2 = w) \<and>
   (get_infos_by_loc_date_range range_query e location_id start_date end_date w =
      (Inl (HTTPException 400 detail3), w3) \<longrightarrow> w3 = w) \<and>
   (create_location e location w = (Inl (HTTPException code4 detail4), w4) \<longrightarrow>
      detail4 = ''city is required'' \<and> w4 = w \<or>
      detail4 = ''Location already exists'' \<and> db w4 = db w \<and>
      calls w4 = calls w @
        (if truthy (dict_get location ''lat'') \<and> truthy (dict_get location ''lon'')
         then []
         else [GetWeatherByCity (dict_get location ''city'')
                 (dict_get location ''country'')]) @
        [CrudGetLocationByCity (dict_get location ''city'') (dict_get location ''country'')]) \<and>
   fst (create_info forecast_down_env (london_request ''2025-06-01'' ''2025-06-02'')
      london_world) = Inl (CollaboratorError ''timeout'') \<and>
   infos (db london_world) = [] \<and>
   infos (db (snd (create_info forecast_down_env
      (london_request ''2025-06-01'' ''2025-06-02'') london_world))) = [sample_info 1 739403]"
proof (intro conjI impI)
  assume "create_info e input w = (Inl (HTTPException code1 detail1), w1)"
  then show "w1 = w" by (rule create_info_http) simp
next
  assume "get_info_by_loc_date e location_id look_up_date w =
      (Inl (HTTPException 400 detail2), w2)"
  then show "w2 = w"
    by (auto simp: get_info_by_loc_date_def call_crud_get_info_by_loc_date_def
        split: option.splits)
next
  assume "get_infos_by_loc_date_range range_query e location_id start_date end_date w =
      (Inl (HTTPException 400 detail3), w3)"
  then show "w3 = w"
    by (auto simp: get_infos_by_loc_date_range_def Let_def split: option.splits if_splits)
next
  assume "create_location e location w = (Inl (HTTPException code4 detail4), w4)"
  then show "detail4 = ''city is required'' \<and> w4 = w \<or>
      detail4 = ''Location already exists'' \<and> db w4 = db w \<and>
      calls w4 = calls w @
        (if truthy (dict_get location ''lat'') \<and> truthy (dict_get location ''lon'')
         then []
         else [GetWeatherByCity (dict_get location ''city'')
                 (dict_get location ''country'')]) @
        [CrudGetLocationByCity (dict_get location ''city'') (dict_get location ''country'')]"
    by (rule create_location_http)
qed (simp_all add: sample_partial_ingestion, simp_all add: sample_defs)

theorem rejections_and_collaborator_calls_witness:
  "create_info sample_env (london_request ''2025-06-02'' ''2025-06-01'') london_world =
     (Inl (HTTPException 400 ''start_date must be before end_date''), london_world) \<and>
   get_info_by_loc_date sample_env 1 ''yesterday'' london_world =
     (Inl (HTTPException 400 ''Invalid date format. Use YYYY-MM-DD''), london_world) \<and>
   get_infos_by_loc_date_range (\<lambda>d l s t. []) sample_env 1 ''2025-06-01'' ''tomorrow''
     london_world =
     (Inl (HTTPException 400 ''Invalid date format. Use YYYY-MM-DD''), london_world) \<and>
   create_location sample_env london_only london_world =
     (Inl (HTTPException 400 ''Location already exists''),
      \<lparr>db = db london_world,
       calls = calls london_world @
         [GetWeatherByCity (JStr ''London'') JNull,
          CrudGetLocationByCity (JStr ''London'') JNull]\<rparr>)"
proof -
  have a: "create_info sample_env (london_request ''2025-06-02'' ''2025-06-01'') london_world =
     (Inl (HTTPException 400 ''start_date must be before end_date''), london_world)"
    by (simp add: create_info_def create_info_validate_def date_fromisoformat_def Let_def
        sample_defs)
  have b: "get_info_by_loc_date sample_env 1 ''yesterday'' london_world =
     (Inl (HTTPException 400 ''Invalid date format. Use YYYY-MM-DD''), london_world)"
    by (simp add: get_info_by_loc_date_def sample_defs)
  have c: "get_infos_by_loc_date_range (\<lambda>d l s t. []) sample_env 1 ''2025-06-01'' ''tomorrow''
     london_world =
     (Inl (HTTPException 400 ''Invalid date format. Use YYYY-MM-DD''), london_world)"
    by (simp add: get_infos_by_loc_date_range_def sample_defs)
  have d: "create_location sample_env london_only london_world =
     (Inl (HTTPException 400 ''Location already exists''),
      \<lparr>db = db london_world,
       calls = calls london_world @
         [GetWeatherByCity (JStr ''London'') JNull,
          CrudGetLocationByCity (JStr ''London'') JNull]\<rparr>)"
    by (simp add: sample_conflict) (simp add: sample_defs)
  from rejections_and_collaborator_calls [where e = sample_env and w = london_world
      and input = "london_request ''2025-06-02'' ''2025-06-01''"
      and look_up_date = "''yesterday''" and location_id = 1
      and range_query = "\<lambda>d l s t. []" and start_date = "''2025-06-01''"
      and end_date = "''tomorrow''" and location = london_only]
    a b c d
  show ?thesis by simp
qed

theorem conflict_after_provider_call_counterexample:
  "fst (create_location sample_env london_only london_world) =
     Inl (HTTPException 400 ''Location already exists'') \<and>
   provider_calls london_world = [] \<and>
   provider_calls (snd (create_location sample_env london_only london_world)) =
     [GetWeatherByCity (JStr ''London'') JNull]"
  by (simp add: sample_conflict provider_calls_def) (simp add: sample_defs)

text \<open>
  C7. For a create-location request with a city: when a location of the same city and
  country is stored, the request fails and the store is unchanged, and the failure is the
  conflict "Location already exists" when the coordinates are given or the provider
  answers the lookup; when none is stored and the coordinates are given or answered, the
  request succeeds, the new record is appended to the store and returned, and the same
  request made again fails with the conflict.
\<close>

theorem create_location_conflict_or_created:
  assumes "truthy (dict_get location ''city'')"
  shows "(crud_get_location_by_city (db w) (dict_get location ''city'')
            (dict_get location ''country'') \<noteq> None \<longrightarrow>
          (\<exists>x w'. create_location e location w = (Inl x, w') \<and> db w' = db w \<and>
             (coords_resolve e location \<longrightarrow>
                x = HTTPException 400 ''Location already exists''))) \<and>
         (crud_get_location_by_city (db w) (dict_get location ''city'')
            (dict_get location ''country'') = None \<and> coords_resolve e location \<longrightarrow>
          (\<exists>l w' w''. create_location e location w = (Inr l, w') \<and>
             loc_city l = dict_get location ''city'' \<and>
             loc_country l = dict_get location ''country'' \<and>
             locations (db w') = locations (db w) @ [l] \<and> infos (db w') = infos (db w) \<and>
             create_location e location w' =
               (Inl (HTTPException 400 ''Location already exists''), w'') \<and>
             db w'' = db w'))"
proof (intro conjI impI)
  assume "crud_get_location_by_city (db w) (dict_get location ''city'')
            (dict_get location ''country'') \<noteq> None"
  then obtain l where st: "crud_get_location_by_city (db w) (dict_get location ''city'')
            (dict_get location ''country'') = Some l" by blast
  from create_location_stored [OF assms st] obtain x w' where
    c: "create_location e location w = (Inl x, w')" and d: "db w' = db w"
    by blast
  have "x = HTTPException 400 ''Location already exists''" if "coords_resolve e location"
    using create_location_conflict [OF assms that st] c by auto
  with c d show "\<exists>x w'. create_location e location w = (Inl x, w') \<and> db w' = db w \<and>
             (coords_resolve e location \<longrightarrow>
                x = HTTPException 400 ''Location already exists'')"
    by blast
next
  assume a: "crud_get_location_by_city (db w) (dict_get location ''city'')
            (dict_get location ''country'') = None \<and> coords_resolve e location"
  then have n: "crud_get_location_by_city (db w) (dict_get location ''city'')
            (dict_get location ''country'') = None" and r: "coords_resolve e location"
    by simp_all
  from create_location_new [OF assms r n] obtain l w' where
    c: "create_location e location w = (Inr l, w')"
    and f: "loc_city l = dict_get location ''city''"
      "loc_country l = dict_get location ''country''"
      "locations (db w') = locations (db w) @ [l]" "infos (db w') = infos (db w)"
    and s: "crud_get_location_by_city (db w') (dict_get location ''city'')
             (dict_get location ''country'') = Some l"
    by blast
  from create_location_conflict [OF assms r s] obtain w'' where
    "create_location e location w' =
       (Inl (HTTPException 400 ''Location already exists''), w'')" and "db w'' = db w'"
    by blast
  with c f show "\<exists>l w' w''. create_location e location w = (Inr l, w') \<and>
             loc_city l = dict_get location ''city'' \<and>
             loc_country l = dict_get location ''country'' \<and>
             locations (db w') = locations (db w) @ [l] \<and> infos (db w') = infos (db w) \<and>
             create_location e location w' =
               (Inl (HTTPException 400 ''Location already exists''), w'') \<and>
             db w'' = db w'"
    by blast
qed

theorem create_location_conflict_or_created_witness:
  "truthy (dict_get london_only ''city'') \<and> coords_resolve sample_env london_only \<and>
   crud_get_location_by_city (db empty_world) (JStr ''London'') JNull = None \<and>
   create_location sample_env london_only empty_world = (Inr london, london_created) \<and>
   (\<exists>w''. create_location sample_env london_only london_created =
            (Inl (HTTPException 400 ''Location already exists''), w'') \<and>
          db w'' = db london_created)"
proof -
  have c: "truthy (dict_get london_only ''city'')"
    by (simp add: sample_defs)
  have r: "coords_resolve sample_env london_only"
    by (simp add: coords_resolve_def coord_of_def sample_defs)
  have n: "crud_get_location_by_city (db empty_world) (JStr ''London'') JNull = None"
    by (simp add: crud_get_location_by_city_def sample_defs)
  have k: "dict_get london_only ''city'' = JStr ''London''"
    "dict_get london_only ''country'' = JNull"
    by (simp_all add: sample_defs)
  from create_location_conflict_or_created [OF c, where w = empty_world
      and e = sample_env] r n
  have "\<exists>w''. create_location sample_env london_only london_created =
            (Inl (HTTPException 400 ''Location already exists''), w'') \<and>
          db w'' = db london_created"
    by (auto simp: k sample_create_london)
  with c r n show ?thesis by (simp add: sample_create_london)
qed

text \<open>
  C8. A partial update of a stored WeatherInfo, with a payload restricted to temperature,
  weather description and raw data, returns the record with the named fields set; a field
  the payload does not name keeps its value, as do the identifier, the location and the
  date; the other records and the locations are unchanged. When the identifier does not
  resolve, the update fails with the not found error and the store is unchanged.
\<close>

theorem update_info_partial:
  assumes "set (map fst updates) \<subseteq> {''temperature'', ''weather_description'', ''raw_data''}"
  shows "(\<forall>i. find (\<lambda>j. wi_id j = info_id) (infos (db w)) = Some i \<longrightarrow>
            (\<exists>i' w'. update_info info_id updates w = (Inr i', w') \<and>
               wi_id i' = wi_id i \<and> wi_location_id i' = wi_location_id i \<and>
               wi_date i' = wi_date i \<and>
               (map_of updates ''temperature'' = None \<longrightarrow>
                  wi_temperature i' = wi_temperature i) \<and>
               (map_of updates ''weather_description'' = None \<longrightarrow>
                  wi_weather_description i' = wi_weather_description i) \<and>
               (map_of updates ''raw_data'' = None \<longrightarrow> wi_raw_data i' = wi_raw_data i) \<and>
               (\<forall>v. map_of updates ''temperature'' = Some v \<longrightarrow> wi_temperature i' = v) \<and>
               (\<forall>v. map_of updates ''weather_description'' = Some v \<longrightarrow>
                  wi_weather_description i' = v) \<and>
               (\<forall>v. map_of updates ''raw_data'' = Some v \<longrightarrow> wi_raw_data i' = v) \<and>
               find (\<lambda>j. wi_id j = info_id) (infos (db w')) = Some i' \<and>
               length (infos (db w')) = length (infos (db w)) \<and>
               filter (\<lambda>j. wi_id j \<noteq> info_id) (infos (db w')) =
                 filter (\<lambda>j. wi_id j \<noteq> info_id) (infos (db w)) \<and>
               locations (db w') = locations (db w))) \<and>
         (find (\<lambda>j. wi_id j = info_id) (infos (db w)) = None \<longrightarrow>
            (\<exists>w'. update_info info_id updates w =
                     (Inl (HTTPException 404 ''Weather info not found''), w') \<and>
                   db w' = db w))"
proof (intro conjI allI impI)
  fix i
  assume f: "find (\<lambda>j. wi_id j = info_id) (infos (db w)) = Some i"
  let ?w' = "\<lparr>db = (db w)\<lparr>infos := update_first info_id updates (infos (db w))\<rparr>,
              calls = calls w @ [CrudUpdateInfo info_id updates]\<rparr>"
  have u: "update_info info_id updates w = (Inr (apply_updates updates i), ?w')"
    using f by (simp add: update_info_def call_crud_update_info_def crud_update_info_def)
  have "wi_temperature (apply_updates updates i) =
          (case map_of updates ''temperature'' of None \<Rightarrow> wi_temperature i | Some v \<Rightarrow> v)"
    and "wi_weather_description (apply_updates updates i) =
          (case map_of updates ''weather_description'' of
             None \<Rightarrow> wi_weather_description i | Some v \<Rightarrow> v)"
    and "wi_raw_data (apply_updates updates i) =
          (case map_of updates ''raw_data'' of None \<Rightarrow> wi_raw_data i | Some v \<Rightarrow> v)"
    by (simp_all add: apply_updates_def)
  with u update_first_find [OF f, of updates]
  show "\<exists>i' w'. update_info info_id updates w = (Inr i', w') \<and>
               wi_id i' = wi_id i \<and> wi_location_id i' = wi_location_id i \<and>
               wi_date i' = wi_date i \<and>
               (map_of updates ''temperature'' = None \<longrightarrow>
                  wi_temperature i' = wi_temperature i) \<and>
               (map_of updates ''weather_description'' = None \<longrightarrow>
                  wi_weather_description i' = wi_weather_description i) \<and>
               (map_of updates ''raw_data'' = None \<longrightarrow> wi_raw_data i' = wi_raw_data i) \<and>
               (\<forall>v. map_of updates ''temperature'' = Some v \<longrightarrow> wi_temperature i' = v) \<and>
               (\<forall>v. map_of updates ''weather_description'' = Some v \<longrightarrow>
                  wi_weather_description i' = v) \<and>
               (\<forall>v. map_of updates ''raw_data'' = Some v \<longrightarrow> wi_raw_data i' = v) \<and>
               find (\<lambda>j. wi_id j = info_id) (infos (db w')) = Some i' \<and>
               length (infos (db w')) = length (infos (db w)) \<and>
               filter (\<lambda>j. wi_id j \<noteq> info_id) (infos (db w')) =
                 filter (\<lambda>j. wi_id j \<noteq> info_id) (infos (db w)) \<and>
               locations (db w') = locations (db w)"
    by (simp add: apply_updates_keeps update_first_others update_first_length)
next
  assume "find (\<lambda>j. wi_id j = info_id) (infos (db w)) = None"
  then show "\<exists>w'. update_info info_id updates w =
                     (Inl (HTTPException 404 ''Weather info not found''), w') \<and>
                   db w' = db w"
    by (simp add: update_info_def call_crud_update_info_def crud_update_info_def)
qed

theorem update_info_partial_witness:
  "set (map fst [(''temperature'', JNum 25)]) \<subseteq>
     {''temperature'', ''weather_description'', ''raw_data''} \<and>
   find (\<lambda>j. wi_id j = 1) (infos (db london_ingested)) = Some (sample_info 1 739403) \<and>
   fst (update_info 1 [(''temperature'', JNum 25)] london_ingested) =
     Inr ((sample_info 1 739403)\<lparr>wi_temperature := JNum 25\<rparr>) \<and>
   wi_weather_description ((sample_info 1 739403)\<lparr>wi_temperature := JNum 25\<rparr>) =
     JStr ''clear sky'' \<and>
   find (\<lambda>j. wi_id j = 7) (infos (db london_ingested)) = None \<and>
   fst (update_info 7 [(''temperature'', JNum 25)] london_ingested) =
     Inl (HTTPException 404 ''Weather info not found'')"
proof -
  have s: "set (map fst [(''temperature'', JNum 25)]) \<subseteq>
     {''temperature'', ''weather_description'', ''raw_data''}" by simp
  have f: "find (\<lambda>j. wi_id j = 1) (infos (db london_ingested)) = Some (sample_info 1 739403)"
    and n: "find (\<lambda>j. wi_id j = 7) (infos (db london_ingested)) = None"
    by (simp_all add: sample_defs)
  have r: "fst (update_info 1 [(''temperature'', JNum 25)] london_ingested) =
     Inr ((sample_info 1 739403)\<lparr>wi_temperature := JNum 25\<rparr>)"
    by (simp add: update_info_def call_crud_update_info_def crud_update_info_def
        apply_updates_def sample_defs)
  from update_info_partial [OF s, of 7 london_ingested] n
  have m: "fst (update_info 7 [(''temperature'', JNum 25)] london_ingested) =
     Inl (HTTPException 404 ''Weather info not found'')"
    by auto
  have d: "wi_weather_description ((sample_info 1 739403)\<lparr>wi_temperature := JNum 25\<rparr>) =
     JStr ''clear sky''"
    by (simp add: sample_defs)
  from s f n r m d show ?thesis by simp
qed

text \<open>
  C9. Ingestion never fills the raw-data field: whatever the outcome of a request, the
  rows it added to the store have no raw data.
\<close>

theorem create_info_raw_data_unset:
  "\<exists>new. infos (db (snd (create_info e input w))) = infos (db w) @ new \<and>
         (\<forall>i\<in>set new. wi_raw_data i = JNull)"
proof (cases "create_info_validate e input")
  case (Inl x)
  then show ?thesis by (simp add: create_info_rejected)
next
  case (Inr v)
  obtain city country start end' where v: "v = (city, country, start, end')"
    by (cases v)
  obtain x w1 where l: "create_info_location e city country w = (x, w1)"
    by (cases "create_info_location e city country w")
  note lf = location_frame [OF l]
  show ?thesis
  proof (cases x)
    case (Inl err)
    with Inr v l lf show ?thesis by (simp add: create_info_def)
  next
    case r: (Inr loc)
    obtain y w' where
      lp: "create_info_loop e city country (loc_id loc) start end' [] w1 = (y, w')"
      by (cases "create_info_loop e city country (loc_id loc) start end' [] w1")
    from Inr v l r lp have "snd (create_info e input w) = w'"
      by (simp add: create_info_def)
    with loop_frame [OF lp] lf show ?thesis by simp
  qed
qed

theorem create_info_raw_data_unset_witness:
  "infos (db (snd (create_info sample_env (london_request ''2025-06-01'' ''2025-06-02'')
      london_world))) = infos (db london_world) @ [sample_info 1 739403, sample_info 2 739404] \<and>
   wi_raw_data (sample_info 1 739403) = JNull \<and> wi_raw_data (sample_info 2 739404) = JNull"
  using create_info_raw_data_unset [of sample_env
      "london_request ''2025-06-01'' ''2025-06-02''" london_world]
  by (simp add: sample_run_two_dates) (simp add: sample_defs)

text \<open>
  C10. In create-location the coordinates of the request are used only when both are
  truthy; then no provider is called. When lat or lon is falsy (absent, null, zero) the
  current weather of the city is fetched once, and the stored coordinates are both those
  of the response, its \<^verbatim>\<open>coord.lat\<close> and \<^verbatim>\<open>coord.lon\<close>, whatever the request carried.
\<close>

theorem create_location_coordinates:
  assumes "truthy (dict_get location ''city'')"
  shows "(truthy (dict_get location ''lat'') \<and> truthy (dict_get location ''lon'') \<longrightarrow>
            provider_calls (snd (create_location e location w)) = provider_calls w \<and>
            (\<forall>l. fst (create_location e location w) = Inr l \<longrightarrow>
               loc_lat l = dict_get location ''lat'' \<and>
               loc_lon l = dict_get location ''lon'')) \<and>
         (\<not> truthy (dict_get location ''lat'') \<or> \<not> truthy (dict_get location ''lon'') \<longrightarrow>
            provider_calls (snd (create_location e location w)) =
              provider_calls w @
                [GetWeatherByCity (dict_get location ''city'') (dict_get location ''country'')] \<and>
            (\<forall>l. fst (create_location e location w) = Inr l \<longrightarrow>
               (\<exists>kvs ck. get_weather_by_city e (calls w) (dict_get location ''city'')
                           (dict_get location ''country'') = Inr (JObj kvs) \<and>
                         map_of kvs ''coord'' = Some (JObj ck) \<and>
                         map_of ck ''lat'' = Some (loc_lat l) \<and>
                         map_of ck ''lon'' = Some (loc_lon l)))) \<and>
         (\<forall>k. map_of location k = None \<or> dict_get location k = JNull \<or>
              dict_get location k = JNum 0 \<longrightarrow> \<not> truthy (dict_get location k))"
proof (intro conjI impI)
  assume t: "truthy (dict_get location ''lat'') \<and> truthy (dict_get location ''lon'')"
  note g = create_location_given [OF assms conjunct1 [OF t] conjunct2 [OF t], of e w]
  show "provider_calls (snd (create_location e location w)) = provider_calls w"
    by (simp add: g Let_def provider_calls_def split: option.splits)
  show "\<forall>l. fst (create_location e location w) = Inr l \<longrightarrow>
               loc_lat l = dict_get location ''lat'' \<and>
               loc_lon l = dict_get location ''lon''"
    by (auto simp: g Let_def split: option.splits)
next
  assume f: "\<not> truthy (dict_get location ''lat'') \<or> \<not> truthy (dict_get location ''lon'')"
  note g = create_location_fetched [OF assms f, of e w]
  show "provider_calls (snd (create_location e location w)) =
              provider_calls w @
                [GetWeatherByCity (dict_get location ''city'') (dict_get location ''country'')]"
    by (simp add: g Let_def provider_calls_def split: option.splits sum.splits prod.splits)
  show "\<forall>l. fst (create_location e location w) = Inr l \<longrightarrow>
               (\<exists>kvs ck. get_weather_by_city e (calls w) (dict_get location ''city'')
                           (dict_get location ''country'') = Inr (JObj kvs) \<and>
                         map_of kvs ''coord'' = Some (JObj ck) \<and>
                         map_of ck ''lat'' = Some (loc_lat l) \<and>
                         map_of ck ''lon'' = Some (loc_lon l))"
  proof (intro allI impI)
    fix l
    assume "fst (create_location e location w) = Inr l"
    then obtain data where
      "get_weather_by_city e (calls w) (dict_get location ''city'')
         (dict_get location ''country'') = Inr data"
      and "coord_of data = Inr (loc_lat l, loc_lon l)"
      by (auto simp: g Let_def split: option.splits sum.splits prod.splits)
    then show "\<exists>kvs ck. get_weather_by_city e (calls w) (dict_get location ''city'')
                           (dict_get location ''country'') = Inr (JObj kvs) \<and>
                         map_of kvs ''coord'' = Some (JObj ck) \<and>
                         map_of ck ''lat'' = Some (loc_lat l) \<and>
                         map_of ck ''lon'' = Some (loc_lon l)"
      by (auto simp: coord_of_shape has_coord_def)
  qed
qed (auto simp: dict_get_def)

theorem create_location_coordinates_witness:
  "truthy (dict_get (london_at 0 5) ''city'') \<and>
   \<not> truthy (dict_get (london_at 0 5) ''lat'') \<and>
   create_location sample_env (london_at 0 5) empty_world = (Inr london, london_created) \<and>
   provider_calls (snd (create_location sample_env (london_at 0 5) empty_world)) =
     [GetWeatherByCity (JStr ''London'') JNull] \<and>
   truthy (dict_get (london_at 48 5) ''lat'') \<and> truthy (dict_get (london_at 48 5) ''lon'') \<and>
   provider_calls (snd (create_location sample_env (london_at 48 5) empty_world)) = [] \<and>
   fst (create_location sample_env (london_at 48 5) empty_world) =
     Inr (london\<lparr>loc_lat := JNum 48, loc_lon := JNum 5\<rparr>)"
proof -
  have c: "truthy (dict_get (london_at x y) ''city'')" for x y
    by (simp add: sample_defs)
  have z: "\<not> truthy (dict_get (london_at 0 5) ''lat'')"
    and t: "truthy (dict_get (london_at 48 5) ''lat'')" "truthy (dict_get (london_at 48 5) ''lon'')"
    by (simp_all add: sample_defs)
  have r0: "create_location sample_env (london_at 0 5) empty_world = (Inr london, london_created)"
    by (simp add: create_location_def call_get_weather_by_city_def coord_of_def
      call_crud_get_location_by_city_def crud_get_location_by_city_def
      call_crud_create_location_def crud_create_location_def fresh_id_def Let_def
      sample_defs)
  have r1: "fst (create_location sample_env (london_at 48 5) empty_world) =
     Inr (london\<lparr>loc_lat := JNum 48, loc_lon := JNum 5\<rparr>)"
    by (simp add: create_location_def call_get_weather_by_city_def coord_of_def
      call_crud_get_location_by_city_def crud_get_location_by_city_def
      call_crud_create_location_def crud_create_location_def fresh_id_def Let_def
      sample_defs)
  from create_location_coordinates [OF c, of 0 5 sample_env empty_world] z
  have a: "provider_calls (snd (create_location sample_env (london_at 0 5) empty_world)) =
     [GetWeatherByCity (JStr ''London'') JNull]"
    by (simp add: provider_calls_def sample_defs)
  from create_location_coordinates [OF c, of 48 5 sample_env empty_world] t
  have b: "provider_calls (snd (create_location sample_env (london_at 48 5) empty_world)) = []"
    by (simp add: provider_calls_def sample_defs)
  from c z t r0 r1 a b show ?thesis by simp
qed

end
